theory Spec2Isabelle
  imports Main "HOL-Library.Word"
begin

section \<open>Data model\<close>

text \<open>
  The request handlers of the web front end (table view, visualisation data, download,
  upload) are embedded as functions from an environment and a request to the trace of
  calls the handler makes on the object store, the SQLite handle and the metadata store,
  paired with what it writes to the client.

  The handlers call package \<open>com\<close>, the session library, SQLite, \<open>crypto/md5\<close> and
  \<open>encoding/json\<close>.  Of these only \<open>common/userinput.go\<close> is part of the sources, so
  every other callee is a field of the record \<open>env\<close>: the handlers are verified for
  every behaviour of their collaborators.
\<close>

type_synonym byte = "8 word"

text \<open>
  The "requesting identity": a user name, empty for an anonymous requester.  The owner
  of a database is an identity too.
\<close>

type_synonym identity = string

text \<open>A Go \<open>error\<close> value, with the text \<open>err.Error()\<close> returns.\<close>

datatype error = Err string

fun Error :: "error \<Rightarrow> string" where
  "Error (Err m) = m"

text \<open>
  A database handle (\<open>*sqlite.Conn\<close>, or the object handle of the store).  \<open>NilConn\<close>
  is Go's \<open>nil\<close> pointer.
\<close>

datatype conn = NilConn | Conn nat

text \<open>\<open>com.WhereClause{Column, Type, Value}\<close>, as \<open>visData\<close> fills it.\<close>

record WhereClause =
  Column :: string
  Type :: string
  Value :: string

text \<open>
  Modelled from the spec: the declaration of \<open>com.SQLiteRecordSet\<close> is not in the
  sources.  The handlers read \<open>RowCount\<close> and write \<open>TotalRows\<close>; the spec's RowSet is
  a sequence of rows, each a sequence of column name/value pairs, with the number of
  rows returned and the total number of rows of the table.
\<close>

record SQLiteRecordSet =
  Records :: "(string \<times> string) list list"
  RowCount :: int
  TotalRows :: int

text \<open>
  What a handler reads of \<open>*http.Request\<close>: the URL path, the form values
  (\<open>r.FormValue\<close> and \<open>r.PostFormValue\<close> return the empty string for an absent
  field), the session (\<open>None\<close>: no session; \<open>Some None\<close>: a session without the
  \<open>UserName\<close> attribute; \<open>Some (Some u)\<close>: user \<open>u\<close> is logged in), and for an upload the
  result of \<open>r.ParseForm()\<close> and of \<open>r.FormFile("database")\<close>.
\<close>

record FileUpload =
  Filename :: string
  ContentType :: "string list"
  Content :: "error + byte list"

record request =
  URL_Path :: string
  FormValue :: "string \<Rightarrow> string"
  PostFormValue :: "string \<Rightarrow> string"
  session :: "string option option"
  ParseForm :: "error option"
  FormFile :: "error + FileUpload"

text \<open>
  The calls of a handler on its collaborators, in the order it makes them.
  \<open>EvOpen c\<close>: the handle \<open>c\<close> was opened (\<open>com.OpenMinioObject\<close>,
  \<open>com.MinioHandle\<close> or \<open>sqlite.Open\<close> returned it without an error);
  \<open>EvClose c\<close>: it was released; \<open>EvTables c\<close>: \<open>c.Tables("")\<close>;
  \<open>EvRead c table maxRows\<close>: \<open>com.ReadSQLiteDB\<close>;
  \<open>EvReadCols c table maxRows whereClauses xCol yCol\<close>: \<open>com.ReadSQLiteDBCols\<close>;
  \<open>EvCount c table\<close>: \<open>com.GetSQLiteRowCount\<close>; \<open>EvCachePut key body\<close>:
  \<open>com.CacheData\<close>; \<open>EvStore bucket id bytes contentType\<close>:
  \<open>com.StoreMinioObject\<close>; \<open>EvAddDatabase\<close> with the arguments of
  \<open>com.AddDatabase\<close>.
\<close>

datatype event =
    EvOpen conn
  | EvClose conn
  | EvTables conn
  | EvRead conn string int
  | EvReadCols conn string int "WhereClause list" string string
  | EvCount conn string
  | EvCachePut string string
  | EvStore string string "byte list" string
  | EvAddDatabase string string string "64 word" "byte list" int bool string string

text \<open>
  What the handler leaves on the \<open>http.ResponseWriter\<close>.  \<open>ErrorPage status msg\<close>:
  \<open>errorPage(w, r, status, msg)\<close>.  \<open>Written body\<close>: the bytes written as the body.
  \<open>UploadSucceeded u\<close>: the page "Upload succeeded" that continues to the profile page
  of \<open>u\<close>.  \<open>NoOutput\<close>: the handler returned after at most a log line, having written
  nothing (the server then sends status 200 with an empty body).  \<open>Panicked\<close>: a
  run-time panic (a nil dereference or an index out of range) ended the handler.
\<close>

datatype response =
    ErrorPage nat string
  | Written string
  | UploadSucceeded string
  | NoOutput
  | Panicked

text \<open>
  The collaborators.  A Go function returning \<open>(value, error)\<close> is a function into
  \<open>error + value\<close>, one returning only an \<open>error\<close> a function into \<open>error option\<close>.
  \<^item> \<open>GetCachedData key\<close> is \<open>Some body\<close> when the cache reports \<open>ok\<close> and has filled
    in the body; the handler only logs its error value.
  \<^item> \<open>HighestDBVersion\<close> returns both values, since the handler drops the error unread.
  \<^item> \<open>RandomString i\<close> is the string the \<open>i\<close>-th call of \<open>com.RandomString(8)\<close>
    returns.
  \<^item> \<open>TempFile\<close>, \<open>TempWrite\<close> and \<open>sqlite_Open\<close>: creating the temporary file,
    writing the upload into it, and opening it read-only with SQLite.
  \<^item> \<open>io_Copy c\<close>: the bytes \<open>io.Copy\<close> copies from the object handle \<open>c\<close> to the
    client, and the error that ended the copy, if any.
\<close>

record env =
  GetODTV :: "nat \<Rightarrow> request \<Rightarrow> error + (string \<times> string \<times> string \<times> int)"
  GetODV :: "nat \<Rightarrow> request \<Rightarrow> error + (string \<times> string \<times> int)"
  ValidateUserFilename :: "string \<Rightarrow> string \<Rightarrow> error option"
  ValidatePGTable :: "string \<Rightarrow> error option"
  ValidateDB :: "string \<Rightarrow> error option"
  MinioBucketID :: "string \<Rightarrow> string \<Rightarrow> int \<Rightarrow> string \<Rightarrow> error + (string \<times> string)"
  CheckUserDBAccess :: "string \<Rightarrow> string \<Rightarrow> string \<Rightarrow> error + (string \<times> string)"
  PrefUserMaxRows :: "string \<Rightarrow> int"
  OpenMinioObject :: "string \<Rightarrow> string \<Rightarrow> error + conn"
  MinioHandle :: "string \<Rightarrow> string \<Rightarrow> error + conn"
  io_Copy :: "conn \<Rightarrow> string \<times> error option"
  Tables :: "conn \<Rightarrow> error + string list"
  ReadSQLiteDB :: "conn \<Rightarrow> string \<Rightarrow> int \<Rightarrow> error + SQLiteRecordSet"
  ReadSQLiteDBCols ::
    "conn \<Rightarrow> string \<Rightarrow> bool \<Rightarrow> bool \<Rightarrow> int \<Rightarrow> WhereClause list \<Rightarrow> string \<Rightarrow> string
      \<Rightarrow> error + SQLiteRecordSet"
  GetSQLiteRowCount :: "conn \<Rightarrow> string \<Rightarrow> error + int"
  json_MarshalIndent :: "SQLiteRecordSet \<Rightarrow> error + string"
  json_Marshal :: "SQLiteRecordSet \<Rightarrow> error + string"
  md5_Sum :: "string \<Rightarrow> byte list"
  GetCachedData :: "string \<Rightarrow> string option"
  TempFile :: "error + string"
  TempWrite :: "string \<Rightarrow> byte list \<Rightarrow> error option"
  sqlite_Open :: "string \<Rightarrow> error + conn"
  sha256_Sum256 :: "byte list \<Rightarrow> byte list"
  HighestDBVersion :: "string \<Rightarrow> string \<Rightarrow> string \<Rightarrow> 64 word \<times> error option"
  MinioUserBucket :: "string \<Rightarrow> error + string"
  RandomString :: "nat \<Rightarrow> string"
  CheckMinioIDAvail :: "string \<Rightarrow> string \<Rightarrow> error + bool"
  StoreMinioObject :: "string \<Rightarrow> string \<Rightarrow> byte list \<Rightarrow> string \<Rightarrow> error + int"
  AddDatabase ::
    "string \<Rightarrow> string \<Rightarrow> string \<Rightarrow> 64 word \<Rightarrow> byte list \<Rightarrow> int \<Rightarrow> bool \<Rightarrow> string \<Rightarrow> string
      \<Rightarrow> error option"

section \<open>Session data\<close>

text \<open>
  Every handler starts with the same lines: \<open>loggedInUser\<close> is the session's
  \<open>UserName\<close> attribute, and stays empty without a session or without the attribute
  (the session is then removed).  \<open>validSession\<close> is set only with the attribute.
\<close>

definition session_UserName :: "request \<Rightarrow> string" where
  "session_UserName r = (case session r of Some (Some u) \<Rightarrow> u | _ \<Rightarrow> [])"

definition validSession :: "request \<Rightarrow> bool" where
  "validSession r = (case session r of Some (Some u) \<Rightarrow> True | _ \<Rightarrow> False)"

section \<open>Handles that stay open\<close>

text \<open>The handles a trace opens and does not release afterwards.\<close>

fun unreleased :: "event list \<Rightarrow> conn list" where
  "unreleased [] = []"
| "unreleased (EvOpen c # es) =
     (if EvClose c \<in> set es then unreleased es else c # unreleased es)"
| "unreleased (e # es) = unreleased es"

section \<open>The table view handler\<close>

text \<open>
  The loop of \<open>tableViewHandler\<close> over the table names: \<open>tablePresent\<close> starts false
  and is set on every name equal to the requested one.
\<close>

definition tablePresent :: "string \<Rightarrow> string list \<Rightarrow> bool" where
  "tablePresent requestedTable tables =
     foldl (\<lambda>present tableName. if requestedTable = tableName then True else present)
       False tables"

text \<open>
  \<open>tableViewHandler\<close> from the check of the table list to the end: the handle \<open>sdb\<close>,
  the table list, the requested table and the row limit are given.  The trace starts
  after the call of \<open>sdb.Tables\<close>.
\<close>

definition tableView_rows ::
  "env \<Rightarrow> conn \<Rightarrow> string list \<Rightarrow> string \<Rightarrow> int \<Rightarrow> event list \<times> response" where
  "tableView_rows env sdb tables requestedTable maxRows =
    (if tables = [] then ([], NoOutput)
     else if requestedTable \<noteq> [] \<and> \<not> tablePresent requestedTable tables
       then ([], ErrorPage 400 ''Requested table does not exist'')
     else
       (let requestedTable = (if requestedTable = [] then tables ! 0 else requestedTable) in
        (case ReadSQLiteDB env sdb requestedTable maxRows of
           Inl err \<Rightarrow> ([EvRead sdb requestedTable maxRows], ErrorPage 400 (Error err))
         | Inr dataRows \<Rightarrow>
            (case GetSQLiteRowCount env sdb requestedTable of
               Inl err \<Rightarrow>
                 ([EvRead sdb requestedTable maxRows, EvCount sdb requestedTable],
                  ErrorPage 500 (Error err))
             | Inr totalRows \<Rightarrow>
                (let dataRows = dataRows\<lparr>TotalRows := totalRows\<rparr>;
                     calls = [EvRead sdb requestedTable maxRows, EvCount sdb requestedTable]
                 in
                 if RowCount dataRows > 0 then
                   (case json_MarshalIndent env dataRows of
                      Inl err \<Rightarrow> (calls, NoOutput)
                    | Inr jsonResponse \<Rightarrow> (calls, Written jsonResponse))
                 else (calls, Written ''{]''))))))"

text \<open>
  The handler.  The error of \<open>com.OpenMinioObject\<close> is overwritten unread by the next
  assignment to \<open>err\<close>, so after a failed open the handler goes on with the handle
  returned beside the error, taken to be nil.  No path calls \<open>sdb.Close\<close>.
\<close>

definition tableViewHandler :: "env \<Rightarrow> request \<Rightarrow> event list \<times> response" where
  "tableViewHandler env r =
    (case GetODTV env 2 r of
       Inl err \<Rightarrow> ([], ErrorPage 400 (Error err))
     | Inr (dbOwner, dbName, requestedTable, dbVersion) \<Rightarrow>
        (case MinioBucketID env dbOwner dbName dbVersion (session_UserName r) of
           Inl err \<Rightarrow> ([], ErrorPage 500 (Error err))
         | Inr (bucket, minioId) \<Rightarrow>
            (if minioId = [] then ([], NoOutput)
             else
               (let maxRows =
                      (if session_UserName r \<noteq> [] then PrefUserMaxRows env (session_UserName r)
                       else 10);
                    sdb =
                      (case OpenMinioObject env bucket minioId of
                         Inl err \<Rightarrow> NilConn | Inr c \<Rightarrow> c);
                    opened =
                      (case OpenMinioObject env bucket minioId of
                         Inl err \<Rightarrow> [] | Inr c \<Rightarrow> [EvOpen c])
                in
                (case Tables env sdb of
                   Inl err \<Rightarrow> (opened @ [EvTables sdb], NoOutput)
                 | Inr tables \<Rightarrow>
                     (opened @ [EvTables sdb]
                        @ fst (tableView_rows env sdb tables requestedTable maxRows),
                      snd (tableView_rows env sdb tables requestedTable maxRows)))))))"

section \<open>The download handler\<close>

text \<open>
  \<open>downloadHandler\<close> registers the release of the object handle with \<open>defer\<close> as soon
  as \<open>com.MinioHandle\<close> has returned it, so the release ends every later path.  When
  \<open>io.Copy\<close> fails the handler writes the error text after the bytes already copied.
\<close>

definition downloadHandler :: "env \<Rightarrow> request \<Rightarrow> event list \<times> response" where
  "downloadHandler env r =
    (case GetODV env 2 r of
       Inl err \<Rightarrow> ([], ErrorPage 400 (Error err))
     | Inr (dbOwner, dbName, dbVersion) \<Rightarrow>
        (case MinioBucketID env dbOwner dbName dbVersion (session_UserName r) of
           Inl err \<Rightarrow> ([], ErrorPage 500 (Error err))
         | Inr (bucket, minioId) \<Rightarrow>
            (case MinioHandle env bucket minioId of
               Inl err \<Rightarrow> ([], ErrorPage 500 (Error err))
             | Inr userDB \<Rightarrow>
                (case io_Copy env userDB of
                   (bytes, Some err) \<Rightarrow>
                     ([EvOpen userDB, EvClose userDB],
                      Written
                        (bytes @ (''Download Handler: Error returning DB file: ''
                           @ (Error err @ [CHR 0x0A]))))
                 | (bytes, None) \<Rightarrow> ([EvOpen userDB, EvClose userDB], Written bytes)))))"

section \<open>Form data: \<open>common/userinput.go\<close>\<close>

text \<open>\<open>strings.Split(s, "/")\<close>: the pieces of \<open>s\<close> between the separators, at least one.\<close>

fun Split :: "string \<Rightarrow> char \<Rightarrow> string list" where
  "Split [] sep = [[]]"
| "Split (c # cs) sep =
     (if c = sep then [] # Split cs sep
      else (case Split cs sep of [] \<Rightarrow> [[c]] | p # ps \<Rightarrow> (c # p) # ps))"

text \<open>
  \<open>GetOD\<close>: owner and database name are the path components after the ignored ones.
  Both branches of the validation failure return the same error; they differ in what is
  logged.
\<close>

definition GetOD :: "env \<Rightarrow> nat \<Rightarrow> request \<Rightarrow> error + (string \<times> string)" where
  "GetOD env ignore_leading r =
    (let pathStrings = Split (URL_Path r) CHR ''/'' in
     if length pathStrings < 3 + ignore_leading then Inl (Err ''Invalid URL'')
     else
       (let owner = pathStrings ! (1 + ignore_leading);
            fileName = pathStrings ! (2 + ignore_leading)
        in
        (case ValidateUserFilename env owner fileName of
           Some err \<Rightarrow> Inl (Err ''Invalid owner or database name'')
         | None \<Rightarrow> Inr (owner, fileName))))"

definition GetTable :: "env \<Rightarrow> request \<Rightarrow> error + string" where
  "GetTable env r =
    (let requestedTable = FormValue r ''table'' in
     if requestedTable \<noteq> [] then
       (case ValidatePGTable env requestedTable of
          Some err \<Rightarrow> Inl (Err ''Invalid table name'')
        | None \<Rightarrow> Inr requestedTable)
     else Inr requestedTable)"

definition GetODT :: "env \<Rightarrow> nat \<Rightarrow> request \<Rightarrow> error + (string \<times> string \<times> string)" where
  "GetODT env ignore_leading r =
    (case GetOD env ignore_leading r of
       Inl err \<Rightarrow> Inl err
     | Inr (owner, fileName) \<Rightarrow>
        (case GetTable env r of
           Inl err \<Rightarrow> Inl err
         | Inr requestedTable \<Rightarrow> Inr (owner, fileName, requestedTable)))"

section \<open>The visualisation data handler\<close>

text \<open>
  \<open>hex.EncodeToString\<close>: two lower-case hexadecimal digits for each byte, the high
  four bits first.
\<close>

definition hextable :: string where
  "hextable = ''0123456789abcdef''"

fun hex_EncodeToString :: "byte list \<Rightarrow> string" where
  "hex_EncodeToString [] = []"
| "hex_EncodeToString (v # vs) =
     hextable ! (unat v div 16) # hextable ! (unat v mod 16) # hex_EncodeToString vs"

text \<open>
  The cache key of \<open>visData\<close>: the digest leaves the requester out, and the key gets
  the prefix \<open>visdat-pub-\<close>, exactly when the requester is not the owner named in the
  URL.
\<close>

definition pageCacheKey ::
  "env \<Rightarrow> identity \<Rightarrow> identity \<Rightarrow> string \<Rightarrow> string \<Rightarrow> string \<Rightarrow> string \<Rightarrow> string
    \<Rightarrow> string \<Rightarrow> string \<Rightarrow> string" where
  "pageCacheKey env loggedInUser userName dbName requestedTable xCol yCol wCol wType wVal =
    (if loggedInUser \<noteq> userName then
       ''visdat-pub-'' @
         hex_EncodeToString
           (md5_Sum env
              (userName @ ''/'' @ dbName @ ''/'' @ requestedTable @ xCol @ yCol @ wCol
                 @ wType @ wVal))
     else
       ''visdat-'' @
         hex_EncodeToString
           (md5_Sum env
              (loggedInUser @ ''-'' @ userName @ ''/'' @ dbName @ ''/'' @ requestedTable
                 @ xCol @ yCol @ wCol @ wType @ wVal)))"

text \<open>The operators the \<open>switch\<close> on the \<open>wheretype\<close> form value lets through.\<close>

definition whereTypes :: "string list" where
  "whereTypes = [''LIKE'', ''='', ''!='', ''<'', ''<='', ''>'', ''>='']"

text \<open>
  The first part of \<open>visData\<close>: the column names and the parts of the WHERE clause are
  read from the form.  A value that fails its validation ends the handler after a log
  line (\<open>None\<close>).  The result is \<open>(xCol, yCol, wCol, wType, wVal, whereClauses)\<close>.
\<close>

definition visData_params ::
  "env \<Rightarrow> request
    \<Rightarrow> (string \<times> string \<times> string \<times> string \<times> string \<times> WhereClause list) option" where
  "visData_params env r =
    (let reqXCol = FormValue r ''xcol'';
         reqYCol = FormValue r ''ycol''
     in
     if reqXCol \<noteq> [] \<and> ValidatePGTable env reqXCol \<noteq> None then None
     else if reqYCol \<noteq> [] \<and> ValidatePGTable env reqYCol \<noteq> None then None
     else
       (let xCol = (if reqXCol \<noteq> [] then reqXCol else []);
            yCol = (if reqYCol \<noteq> [] then reqYCol else []);
            reqWCol = FormValue r ''wherecol'';
            reqWType = FormValue r ''wheretype'';
            reqWVal = FormValue r ''whereval''
        in
        if reqWCol \<noteq> [] \<and> ValidatePGTable env reqWCol \<noteq> None then None
        else if reqWType \<noteq> [] \<and> reqWType \<notin> set whereTypes then None
        else
          (let wCol = (if reqWCol \<noteq> [] then reqWCol else []);
               wType = (if reqWType = [] then [] else reqWType);
               whereClauses =
                 (if reqWVal \<noteq> [] \<and> wType \<noteq> []
                  then [\<lparr>Column = wCol, Type = wType, Value = reqWVal\<rparr>] else []);
               wVal = (if reqWVal \<noteq> [] \<and> wType \<noteq> [] then reqWVal else [])
           in Some (xCol, yCol, wCol, wType, wVal, whereClauses))))"

text \<open>
  \<open>visData\<close> from the check of the table list to the end.  The loop computes
  \<open>dbTable\<close>, but the reads are given \<open>requestedTable\<close>, so \<open>dbTable\<close> has no effect.
  No count query is made, and no path calls \<open>sdb.Close\<close>.
\<close>

definition visData_rows ::
  "env \<Rightarrow> conn \<Rightarrow> string list \<Rightarrow> string \<Rightarrow> string \<Rightarrow> string \<Rightarrow> WhereClause list \<Rightarrow> string
    \<Rightarrow> event list \<times> response" where
  "visData_rows env sdb tables requestedTable xCol yCol whereClauses cacheKey =
    (if tables = [] then ([], NoOutput)
     else
       (let dbTable =
              (if requestedTable \<noteq> []
               then foldl (\<lambda>d tbl. if tbl = requestedTable then requestedTable else d) []
                      tables
               else []);
            dbTable = (if dbTable = [] then tables ! 0 else dbTable);
            maxVals = 2500;
            call =
              (if xCol \<noteq> [] \<and> yCol \<noteq> []
               then EvReadCols sdb requestedTable maxVals whereClauses xCol yCol
               else EvRead sdb requestedTable maxVals)
        in
        (case (if xCol \<noteq> [] \<and> yCol \<noteq> []
               then ReadSQLiteDBCols env sdb requestedTable True True maxVals whereClauses
                      xCol yCol
               else ReadSQLiteDB env sdb requestedTable maxVals) of
           Inl err \<Rightarrow> ([call], ErrorPage 400 (Error err))
         | Inr pageData \<Rightarrow>
            (case json_Marshal env pageData of
               Inl err \<Rightarrow> ([call], NoOutput)
             | Inr jsonResponse \<Rightarrow>
                 ([call, EvCachePut cacheKey jsonResponse], Written jsonResponse)))))"

definition visData :: "env \<Rightarrow> request \<Rightarrow> event list \<times> response" where
  "visData env r =
    (case GetODT env 2 r of
       Inl err \<Rightarrow> ([], ErrorPage 400 (Error err))
     | Inr (userName, dbName, requestedTable) \<Rightarrow>
        (case visData_params env r of
           None \<Rightarrow> ([], NoOutput)
         | Some (xCol, yCol, wCol, wType, wVal, whereClauses) \<Rightarrow>
            (let loggedInUser = session_UserName r in
             (case CheckUserDBAccess env loggedInUser userName dbName of
                Inl err \<Rightarrow> ([], ErrorPage 400 (Error err))
              | Inr (minioBkt, minioId) \<Rightarrow>
                 (let cacheKey =
                        pageCacheKey env loggedInUser userName dbName requestedTable xCol
                          yCol wCol wType wVal
                  in
                  (case GetCachedData env cacheKey of
                     Some jsonResponse \<Rightarrow> ([], Written jsonResponse)
                   | None \<Rightarrow>
                      (case OpenMinioObject env minioBkt minioId of
                         Inl err \<Rightarrow> ([], NoOutput)
                       | Inr sdb \<Rightarrow>
                          (case Tables env sdb of
                             Inl err \<Rightarrow> ([EvOpen sdb, EvTables sdb], NoOutput)
                           | Inr tables \<Rightarrow>
                               ([EvOpen sdb, EvTables sdb]
                                  @ fst (visData_rows env sdb tables requestedTable xCol
                                           yCol whereClauses cacheKey),
                                snd (visData_rows env sdb tables requestedTable xCol yCol
                                       whereClauses cacheKey))))))))))"

section \<open>The upload handler\<close>

text \<open>
  \<open>strconv.ParseBool\<close>: the twelve spellings it accepts.  Go's error text also quotes
  the input; the handler never reads the text, so only its last words are kept.
\<close>

definition ParseBool :: "string \<Rightarrow> error + bool" where
  "ParseBool str =
    (if str \<in> set [''1'', ''t'', ''T'', ''TRUE'', ''true'', ''True''] then Inr True
     else if str \<in> set [''0'', ''f'', ''F'', ''FALSE'', ''false'', ''False''] then Inr False
     else Inl (Err ''invalid syntax''))"

text \<open>
  The loop that chooses the object id.  \<open>RandomString env i\<close> is what the \<open>i\<close>-th call
  of \<open>com.RandomString(8)\<close> returns.  The loop ends when \<open>com.CheckMinioIDAvail\<close>
  reports the id available or fails; the source gives it no other exit, so the model is
  a partial function and \<open>None\<close> stands for a loop that never ends.
\<close>

partial_function (option) genMinioID :: "env \<Rightarrow> string \<Rightarrow> nat \<Rightarrow> (error + string) option"
  where
  "genMinioID env loggedInUser i =
    (let minioID = RandomString env i @ ''.db'' in
     if isl (CheckMinioIDAvail env loggedInUser minioID)
       then Some (Inl (projl (CheckMinioIDAvail env loggedInUser minioID)))
     else if projr (CheckMinioIDAvail env loggedInUser minioID) then Some (Inr minioID)
     else genMinioID env loggedInUser (i + 1))"

declare genMinioID.simps [code]

text \<open>What the availability check says of the id generated in attempt \<open>i\<close>.\<close>

definition attempt :: "env \<Rightarrow> string \<Rightarrow> nat \<Rightarrow> error + bool" where
  "attempt env loggedInUser i =
     CheckMinioIDAvail env loggedInUser (RandomString env i @ ''.db'')"

text \<open>
  \<open>uploadDataHandler\<close> from the sanity check of the table list to the end.  The error
  of \<open>com.HighestDBVersion\<close> is overwritten unread.  \<open>handler.Header["Content-Type"][0]\<close>
  is evaluated before \<open>com.StoreMinioObject\<close> is called, and panics when the part has
  no such header.
\<close>

definition upload_store ::
  "env \<Rightarrow> string \<Rightarrow> string \<Rightarrow> bool \<Rightarrow> byte list \<Rightarrow> string list \<Rightarrow> conn
    \<Rightarrow> (event list \<times> response) option" where
  "upload_store env loggedInUser dbName public tempBuf contentTypes sqliteDB =
    (case Tables env sqliteDB of
       Inl err \<Rightarrow>
         Some ([EvTables sqliteDB],
           ErrorPage 500
             ''Error when sanity checking file.  Possibly encrypted or not a database?'')
     | Inr tables \<Rightarrow>
        (if tables = [] then
           Some ([EvTables sqliteDB], ErrorPage 500 ''Database has no tables?'')
         else
           (let shaSum = sha256_Sum256 env tempBuf;
                highVer = fst (HighestDBVersion env loggedInUser dbName ''/'');
                newVer = (if 0 <s highVer then highVer + 1 else 1);
                folder = ''/''
            in
            (case MinioUserBucket env loggedInUser of
               Inl err \<Rightarrow> Some ([EvTables sqliteDB], ErrorPage 500 ''Database query failure'')
             | Inr bucket \<Rightarrow>
                (case genMinioID env loggedInUser 0 of
                   None \<Rightarrow> None
                 | Some (Inl err) \<Rightarrow>
                     Some ([EvTables sqliteDB], ErrorPage 500 ''Database query failure'')
                 | Some (Inr minioID) \<Rightarrow>
                    (if contentTypes = [] then Some ([EvTables sqliteDB], Panicked)
                     else
                       (case StoreMinioObject env bucket minioID tempBuf (contentTypes ! 0) of
                          Inl err \<Rightarrow>
                            Some ([EvTables sqliteDB,
                                   EvStore bucket minioID tempBuf (contentTypes ! 0)],
                              ErrorPage 500 ''Storing database file failed'')
                        | Inr dbSize \<Rightarrow>
                           (case AddDatabase env loggedInUser folder dbName newVer shaSum
                                   dbSize public bucket minioID of
                              Some err \<Rightarrow>
                                Some ([EvTables sqliteDB,
                                       EvStore bucket minioID tempBuf (contentTypes ! 0),
                                       EvAddDatabase loggedInUser folder dbName newVer shaSum
                                         dbSize public bucket minioID],
                                  ErrorPage 500
                                    ''Adding database details to PostgreSQL failed'')
                            | None \<Rightarrow>
                                Some ([EvTables sqliteDB,
                                       EvStore bucket minioID tempBuf (contentTypes ! 0),
                                       EvAddDatabase loggedInUser folder dbName newVer shaSum
                                         dbSize public bucket minioID],
                                  UploadSucceeded loggedInUser)))))))))"

text \<open>
  The handler.  When \<open>ioutil.TempFile\<close> fails, the log line calls \<open>Name\<close> on the nil
  file, which panics before the error page is written.  \<open>sqliteDB.Close\<close> is deferred
  once \<open>sqlite.Open\<close> has succeeded, so it ends every later path.
\<close>

definition uploadDataHandler :: "env \<Rightarrow> request \<Rightarrow> (event list \<times> response) option" where
  "uploadDataHandler env r =
    (let loggedInUser = session_UserName r in
     if \<not> validSession r then Some ([], ErrorPage 401 ''You need to be logged in'')
     else
       (case ParseForm r of
          Some err \<Rightarrow> Some ([], ErrorPage 500 (Error err))
        | None \<Rightarrow>
           (case ParseBool (PostFormValue r ''public'') of
              Inl err \<Rightarrow> Some ([], ErrorPage 400 ''Public value incorrect'')
            | Inr public \<Rightarrow>
               (case FormFile r of
                  Inl err \<Rightarrow>
                    Some ([], ErrorPage 500 ''Database file missing from upload data?'')
                | Inr handler \<Rightarrow>
                   (let dbName = Filename handler in
                    (case ValidateDB env dbName of
                       Some err \<Rightarrow> Some ([], ErrorPage 400 ''Invalid database name'')
                     | None \<Rightarrow>
                        (case Content handler of
                           Inl err \<Rightarrow> Some ([], ErrorPage 500 ''Internal error'')
                         | Inr tempBuf \<Rightarrow>
                            (if length tempBuf = 0 then
                               Some ([], ErrorPage 400 ''Database file is 0 length?'')
                             else
                               (case TempFile env of
                                  Inl err \<Rightarrow> Some ([], Panicked)
                                | Inr tempDBName \<Rightarrow>
                                   (case TempWrite env tempDBName tempBuf of
                                      Some err \<Rightarrow> Some ([], ErrorPage 500 ''Internal error'')
                                    | None \<Rightarrow>
                                       (case sqlite_Open env tempDBName of
                                          Inl err \<Rightarrow>
                                            Some ([], ErrorPage 500 ''Internal error'')
                                        | Inr sqliteDB \<Rightarrow>
                                            map_option
                                              (\<lambda>(calls, resp).
                                                 (EvOpen sqliteDB # calls @ [EvClose sqliteDB],
                                                  resp))
                                              (upload_store env loggedInUser dbName public
                                                 tempBuf (ContentType handler)
                                                 sqliteDB))))))))))))"

section \<open>An example installation\<close>

text \<open>
  A small concrete environment, used to run the handlers on concrete requests: user
  \<open>alice\<close> owns the public database \<open>d\<close> with the tables \<open>t\<close> (three rows),
  \<open>big\<close> (twelve rows) and \<open>empty\<close> (no row).  Its readers honour the row limit,
  project and filter as asked, and leave \<open>TotalRows\<close> at zero; its serialiser prints the
  two counters of a record set.
\<close>

definition demo_db :: "(string \<times> (string \<times> string) list list) list" where
  "demo_db =
    [(''t'', [[(''x'', ''1''), (''y'', ''10'')], [(''x'', ''2''), (''y'', ''20'')],
              [(''x'', ''3''), (''y'', ''30'')]]),
     (''big'', replicate 12 [(''x'', ''7''), (''y'', ''70'')]),
     (''empty'', [])]"

definition demo_recordset :: "(string \<times> string) list list \<Rightarrow> int \<Rightarrow> SQLiteRecordSet" where
  "demo_recordset rows n =
    \<lparr>Records = take (nat n) rows, RowCount = int (length (take (nat n) rows)),
     TotalRows = 0\<rparr>"

definition demo_read :: "string \<Rightarrow> int \<Rightarrow> error + SQLiteRecordSet" where
  "demo_read tbl n =
    (case map_of demo_db tbl of
       None \<Rightarrow> Inl (Err (''no such table: '' @ tbl))
     | Some rows \<Rightarrow> Inr (demo_recordset rows n))"

definition demo_read_cols ::
  "string \<Rightarrow> int \<Rightarrow> WhereClause list \<Rightarrow> string \<Rightarrow> string \<Rightarrow> error + SQLiteRecordSet" where
  "demo_read_cols tbl n wcs x y =
    (case map_of demo_db tbl of
       None \<Rightarrow> Inl (Err (''no such table: '' @ tbl))
     | Some rows \<Rightarrow>
         Inr (demo_recordset
                (map (filter (\<lambda>kv. fst kv = x \<or> fst kv = y))
                   (filter (\<lambda>row. list_all (\<lambda>wc. map_of row (Column wc) = Some (Value wc)) wcs)
                      rows))
                n))"

definition demo_count :: "string \<Rightarrow> error + int" where
  "demo_count tbl =
    (case map_of demo_db tbl of
       None \<Rightarrow> Inl (Err (''no such table: '' @ tbl))
     | Some rows \<Rightarrow> Inr (int (length rows)))"

definition demo_decimal :: "int \<Rightarrow> string" where
  "demo_decimal n =
    (if n < 10 then [hextable ! nat n]
     else [hextable ! (nat n div 10), hextable ! (nat n mod 10)])"

definition demo_json :: "SQLiteRecordSet \<Rightarrow> string" where
  "demo_json rs =
    ''{RowCount:'' @ demo_decimal (RowCount rs) @ '',TotalRows:''
      @ demo_decimal (TotalRows rs) @ ''}''"

definition demo_digest :: "string \<Rightarrow> byte list" where
  "demo_digest str = replicate 16 (of_nat (length str))"

definition demo_access :: "string \<Rightarrow> string \<Rightarrow> error + (string \<times> string)" where
  "demo_access owner dbName =
    (if owner = ''alice'' \<and> dbName = ''d'' then Inr (''bkt-alice'', ''obj1.db'')
     else Inl (Err ''The requested database does not exist''))"

definition demo_env :: env where
  "demo_env =
    \<lparr>GetODTV = (\<lambda>n r. Inr (''alice'', ''d'', FormValue r ''table'', 0)),
     GetODV = (\<lambda>n r. Inr (''alice'', ''d'', 0)),
     ValidateUserFilename = (\<lambda>owner fileName. None),
     ValidatePGTable =
       (\<lambda>t. if t = [] \<or> CHR ''{'' \<in> set t then Some (Err ''Invalid name'') else None),
     ValidateDB = (\<lambda>dbName. None),
     MinioBucketID = (\<lambda>owner dbName ver user. demo_access owner dbName),
     CheckUserDBAccess = (\<lambda>user owner dbName. demo_access owner dbName),
     PrefUserMaxRows = (\<lambda>user. 2),
     OpenMinioObject = (\<lambda>bucket oid. Inr (Conn 1)),
     MinioHandle = (\<lambda>bucket oid. Inr (Conn 2)),
     io_Copy = (\<lambda>c. (''SQLite format 3'', None)),
     Tables = (\<lambda>c. Inr (map fst demo_db)),
     ReadSQLiteDB = (\<lambda>c. demo_read),
     ReadSQLiteDBCols = (\<lambda>c tbl xs ys. demo_read_cols tbl),
     GetSQLiteRowCount = (\<lambda>c. demo_count),
     json_MarshalIndent = (\<lambda>rs. Inr (demo_json rs)),
     json_Marshal = (\<lambda>rs. Inr (demo_json rs)),
     md5_Sum = demo_digest,
     GetCachedData = (\<lambda>key. None),
     TempFile = Inr ''/tmp/dbhub-upload-1'',
     TempWrite = (\<lambda>name bytes. None),
     sqlite_Open = (\<lambda>name. Inr (Conn 3)),
     sha256_Sum256 = (\<lambda>bytes. replicate 32 (of_nat (length bytes))),
     HighestDBVersion = (\<lambda>user dbName folder. (3, None)),
     MinioUserBucket = (\<lambda>user. Inr ''bkt-alice''),
     RandomString = (\<lambda>i. replicate 8 (hextable ! (i mod 16))),
     CheckMinioIDAvail = (\<lambda>user minioID. Inr (minioID \<noteq> ''00000000.db'')),
     StoreMinioObject = (\<lambda>bucket minioID bytes contentType. Inr (int (length bytes))),
     AddDatabase = (\<lambda>user folder dbName ver sha size pub bucket minioID. None)\<rparr>"

text \<open>The same installation with every object id already taken.\<close>

definition demo_env_full :: env where
  "demo_env_full = demo_env\<lparr>CheckMinioIDAvail := (\<lambda>user minioID. Inr False)\<rparr>"

text \<open>The same installation where the database file holds no table.\<close>

definition demo_env_no_tables :: env where
  "demo_env_no_tables = demo_env\<lparr>Tables := (\<lambda>c. Inr [])\<rparr>"

text \<open>A request with the given path, form values and session, and no uploaded file.\<close>

definition demo_request ::
  "string \<Rightarrow> (string \<times> string) list \<Rightarrow> string option option \<Rightarrow> request" where
  "demo_request path form sess =
    \<lparr>URL_Path = path,
     FormValue = (\<lambda>key. case map_of form key of None \<Rightarrow> [] | Some v \<Rightarrow> v),
     PostFormValue = (\<lambda>key. case map_of form key of None \<Rightarrow> [] | Some v \<Rightarrow> v),
     session = sess,
     ParseForm = None,
     FormFile = Inl (Err ''http: no such file'')\<rparr>"

text \<open>An upload by \<open>alice\<close> of a five-byte file named \<open>new.db\<close>.\<close>

definition demo_upload :: request where
  "demo_upload =
    (demo_request ''/x/uploaddata'' [(''public'', ''true'')] (Some (Some ''alice'')))
      \<lparr>FormFile :=
         Inr \<lparr>Filename = ''new.db'', ContentType = [''application/x-sqlite3''],
              Content = Inr [1, 2, 3, 4, 5]\<rparr>\<rparr>"

section \<open>The cache key\<close>

lemma hextable_not_p: "n < 16 \<Longrightarrow> hextable ! n \<noteq> CHR ''p''"
proof -
  assume "n < 16"
  then have "hextable ! n \<in> set hextable"
    by (intro nth_mem) (simp add: hextable_def)
  moreover have "CHR ''p'' \<notin> set hextable"
    by (simp add: hextable_def)
  ultimately show ?thesis by metis
qed

text \<open>A hexadecimal encoding never starts with the letter \<open>p\<close> of the public prefix.\<close>

lemma hex_EncodeToString_not_pub: "hex_EncodeToString bs \<noteq> CHR ''p'' # rest"
proof (cases bs)
  case Nil
  then show ?thesis by simp
next
  case (Cons v vs)
  have "unat v < 256" using unsigned_less [of v] by simp
  then have "unat v div 16 < 16" by simp
  then show ?thesis using Cons hextable_not_p by auto
qed

text \<open>
  C1.  For fixed owner, database, table, columns and filter parts, any two requesters
  other than the owner (the anonymous, empty identity included) get the same cache key,
  and the key of the owner is a different one.  This holds for every digest function.
\<close>

theorem cache_key_shared_by_non_owners:
  assumes "requester1 \<noteq> owner" and "requester2 \<noteq> owner"
  shows "pageCacheKey env requester1 owner dbName tbl xCol yCol wCol wType wVal
           = pageCacheKey env requester2 owner dbName tbl xCol yCol wCol wType wVal
         \<and> pageCacheKey env owner owner dbName tbl xCol yCol wCol wType wVal
           \<noteq> pageCacheKey env requester1 owner dbName tbl xCol yCol wCol wType wVal"
  using assms hex_EncodeToString_not_pub [of _ "''ub-'' @ _"]
  by (simp add: pageCacheKey_def)

theorem cache_key_shared_by_non_owners_witness:
  "pageCacheKey demo_env [] ''alice'' ''d'' ''t'' [] [] [] [] []
     = pageCacheKey demo_env ''bob'' ''alice'' ''d'' ''t'' [] [] [] [] []
   \<and> pageCacheKey demo_env ''alice'' ''alice'' ''d'' ''t'' [] [] [] [] []
     \<noteq> pageCacheKey demo_env [] ''alice'' ''d'' ''t'' [] [] [] [] []
   \<and> pageCacheKey demo_env [] ''alice'' ''d'' ''t'' [] [] [] [] []
     = ''visdat-pub-09090909090909090909090909090909''"
proof -
  have a: "[] \<noteq> ''alice''" and b: "''bob'' \<noteq> ''alice''" by simp_all
  have key: "pageCacheKey demo_env [] ''alice'' ''d'' ''t'' [] [] [] [] []
     = ''visdat-pub-09090909090909090909090909090909''"
    by code_simp
  show ?thesis
    using cache_key_shared_by_non_owners [OF a b] key by blast
qed

section \<open>The table view handler: the requested table\<close>

lemma foldl_present:
  "foldl (\<lambda>present tableName. if requestedTable = tableName then True else present) acc tables
     = (acc \<or> requestedTable \<in> set tables)"
  by (induction tables arbitrary: acc) auto

text \<open>The loop finds the requested table exactly when it is in the list.\<close>

lemma tablePresent_iff: "tablePresent requestedTable tables = (requestedTable \<in> set tables)"
  by (simp add: tablePresent_def foldl_present)

text \<open>
  C2, as stated, fails: on a database whose table list is empty, a request for table
  \<open>t\<close> (not in the list) gets no error at all; the table view handler returns after a
  log line, having written nothing.
\<close>

theorem tableView_empty_table_list_counterexample:
  "FormValue (demo_request ''/x/table/alice/d'' [(''table'', ''t'')] None) ''table'' = ''t''
   \<and> Tables demo_env_no_tables (Conn 1) = Inr []
   \<and> tableViewHandler demo_env_no_tables
         (demo_request ''/x/table/alice/d'' [(''table'', ''t'')] None)
       = ([EvOpen (Conn 1), EvTables (Conn 1)], NoOutput)"
  by code_simp

text \<open>
  C2, amended.  When the table view handler has opened the database and read its table
  list, and the requested table name is not empty and not in the list, then the
  handler reads no table and makes no count query: it answers with status 400,
  "Requested table does not exist", when the list has a table, and writes nothing when
  the list is empty.
\<close>

theorem tableView_missing_table:
  assumes "GetODTV env 2 r = Inr (dbOwner, dbName, requestedTable, dbVersion)"
    and "MinioBucketID env dbOwner dbName dbVersion (session_UserName r) = Inr (bucket, minioId)"
    and "minioId \<noteq> []"
    and "OpenMinioObject env bucket minioId = Inr sdb"
    and "Tables env sdb = Inr tables"
    and "requestedTable \<noteq> []"
    and "requestedTable \<notin> set tables"
  shows "tableViewHandler env r =
           ([EvOpen sdb, EvTables sdb],
            if tables = [] then NoOutput
            else ErrorPage 400 ''Requested table does not exist'')"
  using assms by (simp add: tableViewHandler_def tableView_rows_def tablePresent_iff)

theorem tableView_missing_table_witness:
  "tableViewHandler demo_env (demo_request ''/x/table/alice/d'' [(''table'', ''nosuch'')] None)
     = ([EvOpen (Conn 1), EvTables (Conn 1)],
        ErrorPage 400 ''Requested table does not exist'')"
proof -
  let ?r = "demo_request ''/x/table/alice/d'' [(''table'', ''nosuch'')] None"
  have 1: "GetODTV demo_env 2 ?r = Inr (''alice'', ''d'', ''nosuch'', 0)"
    by (simp add: demo_env_def demo_request_def)
  have 2: "MinioBucketID demo_env ''alice'' ''d'' 0 (session_UserName ?r)
             = Inr (''bkt-alice'', ''obj1.db'')"
    by (simp add: demo_env_def demo_access_def)
  have 3: "''obj1.db'' \<noteq> []" by simp
  have 4: "OpenMinioObject demo_env ''bkt-alice'' ''obj1.db'' = Inr (Conn 1)"
    by (simp add: demo_env_def)
  have 5: "Tables demo_env (Conn 1) = Inr [''t'', ''big'', ''empty'']"
    by (simp add: demo_env_def demo_db_def)
  have 6: "''nosuch'' \<noteq> []" by simp
  have 7: "''nosuch'' \<notin> set [''t'', ''big'', ''empty'']" by simp
  show ?thesis
    using tableView_missing_table [OF 1 2 3 4 5 6 7] by simp
qed

lemma GetODT_table:
  assumes "GetODT env k r = Inr (userName, dbName, requestedTable)"
  shows "requestedTable = FormValue r ''table''"
  using assms
  by (auto simp: GetODT_def GetTable_def Let_def split: sum.splits option.splits if_splits)

lemma visData_rows_read_table:
  "EvRead c tbl n \<in> set (fst (visData_rows env sdb tables requestedTable x y wcs key))
     \<Longrightarrow> tbl = requestedTable"
  by (auto simp: visData_rows_def Let_def split: sum.splits if_splits)

lemma visData_rows_readcols_table:
  "EvReadCols c tbl n wcs' x' y'
       \<in> set (fst (visData_rows env sdb tables requestedTable x y wcs key))
     \<Longrightarrow> tbl = requestedTable"
  by (auto simp: visData_rows_def Let_def split: sum.splits if_splits)

text \<open>
  The visualisation handler makes no check of its own that the requested table is in the
  table list: whatever read it makes names the table of the form, also when that table
  is not in the list.
\<close>

lemma visData_reads_requested_table:
  assumes "EvRead c tbl n \<in> set (fst (visData env r))
         \<or> EvReadCols c tbl n wcs x y \<in> set (fst (visData env r))"
  shows "tbl = FormValue r ''table''"
  using assms
  by (auto simp: visData_def Let_def
        split: sum.splits option.splits if_splits prod.splits
        dest!: GetODT_table dest: visData_rows_read_table visData_rows_readcols_table)

section \<open>The table view handler: rows, total count and row limit\<close>

text \<open>
  With no row read, the table view handler writes the two bytes \<open>{]\<close> whatever the
  serialiser would produce.
\<close>

lemma tableView_rows_zero:
  assumes "requestedTable \<noteq> []" and "requestedTable \<in> set tables"
    and "ReadSQLiteDB env sdb requestedTable maxRows = Inr dataRows"
    and "GetSQLiteRowCount env sdb requestedTable = Inr totalRows"
    and "RowCount dataRows \<le> 0"
  shows "snd (tableView_rows env sdb tables requestedTable maxRows) = Written ''{]''"
  using assms by (auto simp: tableView_rows_def tablePresent_iff)

text \<open>
  C3 fails on the code.  A request of the anonymous user for the table \<open>empty\<close>, which
  has no row, reads the table and counts its rows without an error, and is answered with
  the two bytes \<open>{]\<close>: an opening brace closed by a bracket, with no rows field in it.
\<close>

theorem tableView_zero_rows_body:
  "tableViewHandler demo_env (demo_request ''/x/table/alice/d'' [(''table'', ''empty'')] None)
     = ([EvOpen (Conn 1), EvTables (Conn 1), EvRead (Conn 1) ''empty'' 10,
         EvCount (Conn 1) ''empty''],
        Written ''{]'')"
  by code_simp

lemma tableView_rows_written:
  assumes "snd (tableView_rows env sdb tables requestedTable maxRows) = Written body"
  shows "\<exists>tbl rs n.
           ReadSQLiteDB env sdb tbl maxRows = Inr rs
         \<and> GetSQLiteRowCount env sdb tbl = Inr n
         \<and> fst (tableView_rows env sdb tables requestedTable maxRows)
             = [EvRead sdb tbl maxRows, EvCount sdb tbl]
         \<and> (0 < RowCount rs \<longrightarrow> json_MarshalIndent env (rs\<lparr>TotalRows := n\<rparr>) = Inr body)"
  using assms
  by (auto simp: tableView_rows_def Let_def split: if_splits sum.splits)

lemma visData_rows_no_count:
  "EvCount c t \<notin> set (fst (visData_rows env sdb tables tbl x y wcs key))"
  by (auto simp: visData_rows_def Let_def split: sum.splits if_splits)

text \<open>
  A body the visualisation handler writes after a read is the serialisation of what
  that read returned.
\<close>

lemma visData_rows_written:
  assumes "snd (visData_rows env sdb tables tbl x y wcs key) = Written body"
  shows "\<exists>rs ev.
           fst (visData_rows env sdb tables tbl x y wcs key) = [ev, EvCachePut key body]
         \<and> json_Marshal env rs = Inr body
         \<and> (ev = EvRead sdb tbl 2500 \<and> ReadSQLiteDB env sdb tbl 2500 = Inr rs
            \<or> ev = EvReadCols sdb tbl 2500 wcs x y
              \<and> ReadSQLiteDBCols env sdb tbl True True 2500 wcs x y = Inr rs)"
  using assms
  by (auto simp: visData_rows_def Let_def split: sum.splits if_splits)

text \<open>
  C4, as stated, fails: a two-column request to the visualisation handler succeeds
  without any count query, and the record set it serialises carries the total the reader
  left in it (here 0) while the table has three rows.
\<close>

theorem visData_no_count_query_counterexample:
  "visData demo_env
     (demo_request ''/x/vis/alice/d'' [(''table'', ''t''), (''xcol'', ''x''), (''ycol'', ''y'')]
        None)
     = ([EvOpen (Conn 1), EvTables (Conn 1),
         EvReadCols (Conn 1) ''t'' 2500 [] ''x'' ''y'',
         EvCachePut ''visdat-pub-0b0b0b0b0b0b0b0b0b0b0b0b0b0b0b0b''
           ''{RowCount:3,TotalRows:0}''],
        Written ''{RowCount:3,TotalRows:0}'')
   \<and> GetSQLiteRowCount demo_env (Conn 1) ''t'' = Inr 3"
  by code_simp

text \<open>
  C4, amended.  Whenever the table view handler writes a response body, its last two
  calls are the read of a table, at the row limit of the requester, and then a separate
  count query on that same table; and when the read returned at least one row, the body
  is the serialisation of the record set read with its total set to the result of the
  count query, whatever limit capped the rows.  The visualisation handler never makes a
  count query: a body it writes is either the one found in the cache, or the
  serialisation of the record set just as its one read, at the limit 2500, returned it.
\<close>

theorem total_rows_from_count_query:
  "(tableViewHandler env r = (calls, Written body)
      \<longrightarrow> (\<exists>sdb tbl maxRows rs n.
             maxRows = (if session_UserName r = [] then 10
                        else PrefUserMaxRows env (session_UserName r))
           \<and> (calls = [EvOpen sdb, EvTables sdb, EvRead sdb tbl maxRows, EvCount sdb tbl]
              \<or> sdb = NilConn
                \<and> calls = [EvTables sdb, EvRead sdb tbl maxRows, EvCount sdb tbl])
           \<and> ReadSQLiteDB env sdb tbl maxRows = Inr rs
           \<and> GetSQLiteRowCount env sdb tbl = Inr n
           \<and> (0 < RowCount rs
                \<longrightarrow> json_MarshalIndent env (rs\<lparr>TotalRows := n\<rparr>) = Inr body)))
   \<and> (visData env r' = (calls', Written body')
      \<longrightarrow> (\<forall>c t. EvCount c t \<notin> set calls')
        \<and> (calls' = [] \<and> (\<exists>key. GetCachedData env key = Some body')
           \<or> (\<exists>sdb tbl rs key ev.
                 calls' = [EvOpen sdb, EvTables sdb, ev, EvCachePut key body']
               \<and> json_Marshal env rs = Inr body'
               \<and> (ev = EvRead sdb tbl 2500 \<and> ReadSQLiteDB env sdb tbl 2500 = Inr rs
                  \<or> (\<exists>wcs x y.
                        ev = EvReadCols sdb tbl 2500 wcs x y
                      \<and> ReadSQLiteDBCols env sdb tbl True True 2500 wcs x y = Inr rs)))))"
proof (intro conjI impI)
  assume run: "tableViewHandler env r = (calls, Written body)"
  then show "\<exists>sdb tbl maxRows rs n.
             maxRows = (if session_UserName r = [] then 10
                        else PrefUserMaxRows env (session_UserName r))
           \<and> (calls = [EvOpen sdb, EvTables sdb, EvRead sdb tbl maxRows, EvCount sdb tbl]
              \<or> sdb = NilConn
                \<and> calls = [EvTables sdb, EvRead sdb tbl maxRows, EvCount sdb tbl])
           \<and> ReadSQLiteDB env sdb tbl maxRows = Inr rs
           \<and> GetSQLiteRowCount env sdb tbl = Inr n
           \<and> (0 < RowCount rs
                \<longrightarrow> json_MarshalIndent env (rs\<lparr>TotalRows := n\<rparr>) = Inr body)"
    by (fastforce simp: tableViewHandler_def Let_def split: sum.splits if_splits prod.splits
          dest!: tableView_rows_written)
next
  assume run: "visData env r' = (calls', Written body')"
  have "fst (visData env r') = calls'" using run by simp
  then show "\<forall>c t. EvCount c t \<notin> set calls'"
    using visData_rows_no_count
    by (auto simp: visData_def Let_def split: sum.splits option.splits if_splits prod.splits)
next
  assume run: "visData env r' = (calls', Written body')"
  then show "calls' = [] \<and> (\<exists>key. GetCachedData env key = Some body')
           \<or> (\<exists>sdb tbl rs key ev.
                 calls' = [EvOpen sdb, EvTables sdb, ev, EvCachePut key body']
               \<and> json_Marshal env rs = Inr body'
               \<and> (ev = EvRead sdb tbl 2500 \<and> ReadSQLiteDB env sdb tbl 2500 = Inr rs
                  \<or> (\<exists>wcs x y.
                        ev = EvReadCols sdb tbl 2500 wcs x y
                      \<and> ReadSQLiteDBCols env sdb tbl True True 2500 wcs x y = Inr rs)))"
    by (fastforce simp: visData_def Let_def
          split: sum.splits option.splits if_splits prod.splits
          dest!: visData_rows_written)
qed

theorem total_rows_from_count_query_witness:
  "tableViewHandler demo_env
     (demo_request ''/x/table/alice/d'' [(''table'', ''t'')] (Some (Some ''bob'')))
     = ([EvOpen (Conn 1), EvTables (Conn 1), EvRead (Conn 1) ''t'' 2, EvCount (Conn 1) ''t''],
        Written ''{RowCount:2,TotalRows:3}'')
   \<and> (\<exists>rs. ReadSQLiteDB demo_env (Conn 1) ''t'' 2 = Inr rs
          \<and> 0 < RowCount rs
          \<and> GetSQLiteRowCount demo_env (Conn 1) ''t'' = Inr 3
          \<and> json_MarshalIndent demo_env (rs\<lparr>TotalRows := 3\<rparr>)
              = Inr ''{RowCount:2,TotalRows:3}'')
   \<and> visData demo_env
        (demo_request ''/x/vis/alice/d''
           [(''table'', ''t''), (''xcol'', ''x''), (''ycol'', ''y'')] None)
     = ([EvOpen (Conn 1), EvTables (Conn 1),
         EvReadCols (Conn 1) ''t'' 2500 [] ''x'' ''y'',
         EvCachePut ''visdat-pub-0b0b0b0b0b0b0b0b0b0b0b0b0b0b0b0b''
           ''{RowCount:3,TotalRows:0}''],
        Written ''{RowCount:3,TotalRows:0}'')
   \<and> (\<exists>rs. ReadSQLiteDBCols demo_env (Conn 1) ''t'' True True 2500 [] ''x'' ''y'' = Inr rs
          \<and> json_Marshal demo_env rs = Inr ''{RowCount:3,TotalRows:0}'')"
proof -
  let ?r = "demo_request ''/x/table/alice/d'' [(''table'', ''t'')] (Some (Some ''bob''))"
  let ?v = "demo_request ''/x/vis/alice/d''
              [(''table'', ''t''), (''xcol'', ''x''), (''ycol'', ''y'')] None"
  have run: "tableViewHandler demo_env ?r
     = ([EvOpen (Conn 1), EvTables (Conn 1), EvRead (Conn 1) ''t'' 2, EvCount (Conn 1) ''t''],
        Written ''{RowCount:2,TotalRows:3}'')"
    by code_simp
  have vis: "visData demo_env ?v
     = ([EvOpen (Conn 1), EvTables (Conn 1),
         EvReadCols (Conn 1) ''t'' 2500 [] ''x'' ''y'',
         EvCachePut ''visdat-pub-0b0b0b0b0b0b0b0b0b0b0b0b0b0b0b0b''
           ''{RowCount:3,TotalRows:0}''],
        Written ''{RowCount:3,TotalRows:0}'')"
    by code_simp
  have rows: "ReadSQLiteDB demo_env (Conn 1) ''t'' 2
                = Inr \<lparr>Records = [[(''x'', ''1''), (''y'', ''10'')],
                                  [(''x'', ''2''), (''y'', ''20'')]],
                       RowCount = 2, TotalRows = 0\<rparr>"
    by code_simp
  have count: "GetSQLiteRowCount demo_env (Conn 1) ''t'' = Inr 3"
    by code_simp
  from total_rows_from_count_query [THEN conjunct1, rule_format, OF run]
  obtain sdb tbl maxRows rs n where
    calls: "[EvOpen (Conn 1), EvTables (Conn 1), EvRead (Conn 1) ''t'' 2,
             EvCount (Conn 1) ''t'']
              = [EvOpen sdb, EvTables sdb, EvRead sdb tbl maxRows, EvCount sdb tbl]
            \<or> sdb = NilConn
              \<and> [EvOpen (Conn 1), EvTables (Conn 1), EvRead (Conn 1) ''t'' 2,
                  EvCount (Conn 1) ''t'']
                 = [EvTables sdb, EvRead sdb tbl maxRows, EvCount sdb tbl]"
    and rd: "ReadSQLiteDB demo_env sdb tbl maxRows = Inr rs"
    and ct: "GetSQLiteRowCount demo_env sdb tbl = Inr n"
    and body: "0 < RowCount rs
       \<longrightarrow> json_MarshalIndent demo_env (rs\<lparr>TotalRows := n\<rparr>) = Inr ''{RowCount:2,TotalRows:3}''"
    by blast
  from calls have ids: "sdb = Conn 1" "tbl = ''t''" "maxRows = 2" by auto
  from rd rows ids have rs: "rs = \<lparr>Records = [[(''x'', ''1''), (''y'', ''10'')],
                                  [(''x'', ''2''), (''y'', ''20'')]],
                       RowCount = 2, TotalRows = 0\<rparr>"
    by simp
  from ct count ids have n: "n = 3" by simp
  have tv: "\<exists>rs. ReadSQLiteDB demo_env (Conn 1) ''t'' 2 = Inr rs
          \<and> 0 < RowCount rs
          \<and> GetSQLiteRowCount demo_env (Conn 1) ''t'' = Inr 3
          \<and> json_MarshalIndent demo_env (rs\<lparr>TotalRows := 3\<rparr>)
              = Inr ''{RowCount:2,TotalRows:3}''"
    using rd ct body ids rs n by auto
  from total_rows_from_count_query [THEN conjunct2, rule_format, OF vis]
  have "\<exists>sdb tbl rs key ev.
          [EvOpen (Conn 1), EvTables (Conn 1),
           EvReadCols (Conn 1) ''t'' 2500 [] ''x'' ''y'',
           EvCachePut ''visdat-pub-0b0b0b0b0b0b0b0b0b0b0b0b0b0b0b0b''
             ''{RowCount:3,TotalRows:0}'']
            = [EvOpen sdb, EvTables sdb, ev, EvCachePut key ''{RowCount:3,TotalRows:0}'']
        \<and> json_Marshal demo_env rs = Inr ''{RowCount:3,TotalRows:0}''
        \<and> (ev = EvRead sdb tbl 2500 \<and> ReadSQLiteDB demo_env sdb tbl 2500 = Inr rs
           \<or> (\<exists>wcs x y.
                 ev = EvReadCols sdb tbl 2500 wcs x y
               \<and> ReadSQLiteDBCols demo_env sdb tbl True True 2500 wcs x y = Inr rs))"
    by auto
  then have vs: "\<exists>rs. ReadSQLiteDBCols demo_env (Conn 1) ''t'' True True 2500 [] ''x'' ''y''
                     = Inr rs
          \<and> json_Marshal demo_env rs = Inr ''{RowCount:3,TotalRows:0}''"
    by auto
  show ?thesis using run tv vis vs by blast
qed

text \<open>
  C7, as stated, fails: the visualisation handler answers a request without a column
  pair with a full dump too, and there the limit is 2500 for every requester.  The
  anonymous user gets all twelve rows of the table \<open>big\<close>.
\<close>

theorem visData_full_dump_cap_counterexample:
  "session (demo_request ''/x/vis/alice/d'' [(''table'', ''big'')] None) = None
   \<and> visData demo_env (demo_request ''/x/vis/alice/d'' [(''table'', ''big'')] None)
     = ([EvOpen (Conn 1), EvTables (Conn 1), EvRead (Conn 1) ''big'' 2500,
         EvCachePut ''visdat-pub-0b0b0b0b0b0b0b0b0b0b0b0b0b0b0b0b''
           ''{RowCount:12,TotalRows:0}''],
        Written ''{RowCount:12,TotalRows:0}'')"
  by code_simp

lemma tableView_rows_cap:
  "EvRead c tbl n \<in> set (fst (tableView_rows env sdb tables requestedTable maxRows))
     \<Longrightarrow> n = maxRows"
  by (auto simp: tableView_rows_def Let_def split: sum.splits if_splits)

lemma visData_rows_cap:
  "EvRead c tbl n \<in> set (fst (visData_rows env sdb tables requestedTable x y wcs key))
     \<Longrightarrow> n = 2500"
  by (auto simp: visData_rows_def Let_def split: sum.splits if_splits)

text \<open>
  C7, amended.  Every full dump the table view handler asks of the reader has the row
  limit 10 when the requester is anonymous, and the requester's stored maximum-rows
  preference otherwise.  Every full dump the visualisation handler asks for has the
  row limit 2500.
\<close>

theorem full_dump_row_limit:
  "(EvRead c tbl n \<in> set (fst (tableViewHandler env r))
      \<longrightarrow> n = (if session_UserName r = [] then 10
               else PrefUserMaxRows env (session_UserName r)))
   \<and> (EvRead c tbl n \<in> set (fst (visData env r)) \<longrightarrow> n = 2500)"
proof (intro conjI impI)
  assume "EvRead c tbl n \<in> set (fst (tableViewHandler env r))"
  then show "n = (if session_UserName r = [] then 10
               else PrefUserMaxRows env (session_UserName r))"
    by (auto simp: tableViewHandler_def Let_def
          split: sum.splits if_splits prod.splits dest: tableView_rows_cap)
next
  assume "EvRead c tbl n \<in> set (fst (visData env r))"
  then show "n = 2500"
    by (auto simp: visData_def Let_def
          split: sum.splits option.splits if_splits prod.splits dest: visData_rows_cap)
qed

theorem full_dump_row_limit_witness:
  "EvRead (Conn 1) ''t'' 10
     \<in> set (fst (tableViewHandler demo_env
                   (demo_request ''/x/table/alice/d'' [(''table'', ''t'')] None)))
   \<and> session_UserName (demo_request ''/x/table/alice/d'' [(''table'', ''t'')] None) = []
   \<and> EvRead (Conn 1) ''t'' 2
     \<in> set (fst (tableViewHandler demo_env
                   (demo_request ''/x/table/alice/d'' [(''table'', ''t'')]
                      (Some (Some ''bob'')))))
   \<and> 2 = (if session_UserName
               (demo_request ''/x/table/alice/d'' [(''table'', ''t'')] (Some (Some ''bob'')))
             = []
          then 10
          else PrefUserMaxRows demo_env
                 (session_UserName
                    (demo_request ''/x/table/alice/d'' [(''table'', ''t'')]
                       (Some (Some ''bob'')))))
   \<and> session_UserName
        (demo_request ''/x/table/alice/d'' [(''table'', ''t'')] (Some (Some ''bob'')))
      = ''bob''"
proof -
  have a: "EvRead (Conn 1) ''t'' 10
     \<in> set (fst (tableViewHandler demo_env
                   (demo_request ''/x/table/alice/d'' [(''table'', ''t'')] None)))"
    by code_simp
  have b: "EvRead (Conn 1) ''t'' 2
     \<in> set (fst (tableViewHandler demo_env
                   (demo_request ''/x/table/alice/d'' [(''table'', ''t'')]
                      (Some (Some ''bob'')))))"
    by code_simp
  have c: "session_UserName (demo_request ''/x/table/alice/d'' [(''table'', ''t'')] None) = []"
    by code_simp
  have d: "session_UserName
        (demo_request ''/x/table/alice/d'' [(''table'', ''t'')] (Some (Some ''bob'')))
      = ''bob''"
    by code_simp
  from full_dump_row_limit [THEN conjunct1, rule_format, OF b]
  show ?thesis using a b c d by blast
qed

section \<open>Release of the database handle\<close>

lemma unreleased_no_open: "(\<And>c. EvOpen c \<notin> set es) \<Longrightarrow> unreleased es = []"
proof (induction es)
  case Nil
  then show ?case by simp
next
  case (Cons e es)
  then show ?case by (cases e) auto
qed

lemma tableView_rows_no_open:
  "EvOpen c \<notin> set (fst (tableView_rows env sdb tables requestedTable maxRows))"
  by (auto simp: tableView_rows_def Let_def split: sum.splits if_splits)

lemma tableView_rows_no_close:
  "EvClose c \<notin> set (fst (tableView_rows env sdb tables requestedTable maxRows))"
  by (auto simp: tableView_rows_def Let_def split: sum.splits if_splits)

text \<open>No path of the table view handler releases a handle.\<close>

lemma tableViewHandler_no_close: "EvClose c \<notin> set (fst (tableViewHandler env r))"
  using tableView_rows_no_close
  by (auto simp: tableViewHandler_def Let_def split: sum.splits if_splits prod.splits)

text \<open>
  Once the table view handler has opened the database, every path to its end leaves the
  handle open.
\<close>

lemma tableViewHandler_unreleased:
  assumes "GetODTV env 2 r = Inr (dbOwner, dbName, requestedTable, dbVersion)"
    and "MinioBucketID env dbOwner dbName dbVersion (session_UserName r) = Inr (bucket, minioId)"
    and "minioId \<noteq> []"
    and "OpenMinioObject env bucket minioId = Inr sdb"
  shows "unreleased (fst (tableViewHandler env r)) = [sdb]"
proof -
  have "\<exists>es. fst (tableViewHandler env r) = EvOpen sdb # es \<and> (\<forall>c. EvOpen c \<notin> set es)"
    using assms tableView_rows_no_open
    by (auto simp: tableViewHandler_def Let_def split: sum.splits)
  then obtain es where es: "fst (tableViewHandler env r) = EvOpen sdb # es"
    and no_open: "\<And>c. EvOpen c \<notin> set es"
    by blast
  have "EvClose sdb \<notin> set es"
    using tableViewHandler_no_close [of sdb env r] es by simp
  then show ?thesis
    using es unreleased_no_open [OF no_open] by simp
qed

text \<open>No path of the visualisation handler releases a handle either.\<close>

lemma visData_rows_no_close:
  "EvClose c \<notin> set (fst (visData_rows env sdb tables requestedTable x y wcs key))"
  by (auto simp: visData_rows_def Let_def split: sum.splits if_splits)

lemma visData_no_close: "EvClose c \<notin> set (fst (visData env r))"
  using visData_rows_no_close
  by (auto simp: visData_def Let_def split: sum.splits option.splits if_splits prod.splits)

text \<open>The download handler releases the handle it opened on every path.\<close>

lemma downloadHandler_releases: "unreleased (fst (downloadHandler env r)) = []"
  by (auto simp: downloadHandler_def split: sum.splits prod.splits option.splits)

text \<open>
  C5 fails on the code.  The table view handler answers a request of the anonymous user
  for the table \<open>t\<close> with the handle \<open>Conn 1\<close>, which it opened, still open at its end.
\<close>

theorem tableViewHandler_leaves_handle_open:
  "unreleased
     (fst (tableViewHandler demo_env
             (demo_request ''/x/table/alice/d'' [(''table'', ''t'')] None)))
     = [Conn 1]
   \<and> unreleased
       (fst (downloadHandler demo_env (demo_request ''/x/download/alice/d'' [] None)))
     = []"
  by code_simp

section \<open>The WHERE clause of the visualisation handler\<close>

text \<open>
  What a WHERE clause built by \<open>visData\<close> holds: an operator the \<open>switch\<close> let
  through, the \<open>whereval\<close> form value unchanged, and the \<open>wherecol\<close> form value,
  which was validated only if it is not empty.
\<close>

lemma visData_params_where_clause:
  assumes "visData_params env r = Some (xCol, yCol, wCol, wType, wVal, whereClauses)"
    and "wc \<in> set whereClauses"
  shows "Type wc \<in> set whereTypes
       \<and> Value wc = FormValue r ''whereval''
       \<and> Column wc = FormValue r ''wherecol''
       \<and> (Column wc = [] \<or> ValidatePGTable env (Column wc) = None)"
  using assms
  by (auto simp: visData_params_def Let_def split: if_splits)

text \<open>
  C6 fails on the code.  A request with an operator and a value but no \<open>wherecol\<close>
  field passes the checks; the WHERE clause is built with the empty column name, which
  was never given to the validator (and which the validator of the example rejects), and
  is handed to the reader.
\<close>

theorem visData_where_column_unvalidated:
  "visData_params demo_env
     (demo_request ''/x/vis/alice/d''
        [(''table'', ''t''), (''xcol'', ''x''), (''ycol'', ''y''), (''wheretype'', ''=''),
         (''whereval'', ''1'')] None)
     = Some (''x'', ''y'', [], ''='', ''1'', [\<lparr>Column = [], Type = ''='', Value = ''1''\<rparr>])
   \<and> ValidatePGTable demo_env [] = Some (Err ''Invalid name'')
   \<and> fst (visData demo_env
         (demo_request ''/x/vis/alice/d''
            [(''table'', ''t''), (''xcol'', ''x''), (''ycol'', ''y''), (''wheretype'', ''=''),
             (''whereval'', ''1'')] None))
     = [EvOpen (Conn 1), EvTables (Conn 1),
        EvReadCols (Conn 1) ''t'' 2500 [\<lparr>Column = [], Type = ''='', Value = ''1''\<rparr>]
          ''x'' ''y'',
        EvCachePut ''visdat-pub-0d0d0d0d0d0d0d0d0d0d0d0d0d0d0d0d''
          ''{RowCount:0,TotalRows:0}'']"
  by code_simp




section \<open>The upload handler: version number and object id\<close>




text \<open>An upload that reports success has recorded the database.\<close>

lemma upload_store_success:
  assumes "upload_store env user dbName public buf cts sqliteDB = Some (calls, UploadSucceeded u)"
  shows "\<exists>v sha dbSize bucket minioID.
           EvAddDatabase user ''/'' dbName v sha dbSize public bucket minioID \<in> set calls"
  using assms
  by (auto simp: upload_store_def Let_def split: sum.splits if_splits option.splits)

lemma uploadDataHandler_success:
  assumes "uploadDataHandler env r = Some (calls, UploadSucceeded u)"
  shows "\<exists>dbName v sha dbSize pub bucket minioID.
           EvAddDatabase (session_UserName r) ''/'' dbName v sha dbSize pub bucket minioID
             \<in> set calls"
  using assms
  by (fastforce simp: uploadDataHandler_def Let_def
        split: sum.splits if_splits option.splits prod.splits
        dest!: upload_store_success)



lemma genMinioID_taken:
  assumes "attempt env user i = Inr False"
  shows "genMinioID env user i = genMinioID env user (i + 1)"
  using assms by (subst genMinioID.simps) (simp add: attempt_def)

lemma genMinioID_free:
  assumes "attempt env user i = Inr True"
  shows "genMinioID env user i = Some (Inr (RandomString env i @ ''.db''))"
  using assms by (subst genMinioID.simps) (simp add: attempt_def)

lemma genMinioID_error:
  assumes "attempt env user i = Inl err"
  shows "genMinioID env user i = Some (Inl err)"
  using assms by (subst genMinioID.simps) (simp add: attempt_def)

text \<open>Attempts that find their id taken are skipped.\<close>

lemma genMinioID_skip:
  assumes "\<And>j. j < k \<Longrightarrow> attempt env user (i + j) = Inr False"
  shows "genMinioID env user i = genMinioID env user (i + k)"
  using assms
proof (induction k arbitrary: i)
  case 0
  then show ?case by simp
next
  case (Suc k)
  have "attempt env user i = Inr False"
    using Suc.prems [of 0] by simp
  then have "genMinioID env user i = genMinioID env user (i + 1)"
    by (rule genMinioID_taken)
  also have "\<dots> = genMinioID env user (i + 1 + k)"
  proof (rule Suc.IH)
    fix j assume "j < k"
    then show "attempt env user (i + 1 + j) = Inr False"
      using Suc.prems [of "Suc j"] by simp
  qed
  finally show ?case by simp
qed

text \<open>A loop that returns has met an attempt whose id was not reported taken.\<close>

lemma genMinioID_returns:
  assumes "genMinioID env user i = Some y"
  shows "\<exists>j. attempt env user (i + j) \<noteq> Inr False"
proof (rule genMinioID.raw_induct
    [where P = "\<lambda>e u n z. \<exists>j. attempt e u (n + j) \<noteq> Inr False", OF _ assms])
  fix gen e u n z
  assume IH: "\<And>e u n z. gen e u n = Some z \<Longrightarrow> \<exists>j. attempt e u (n + j) \<noteq> Inr False"
    and body: "(let minioID = RandomString e n @ ''.db'' in
                if isl (CheckMinioIDAvail e u minioID)
                  then Some (Inl (projl (CheckMinioIDAvail e u minioID)))
                else if projr (CheckMinioIDAvail e u minioID) then Some (Inr minioID)
                else gen e u (n + 1)) = Some z"
  show "\<exists>j. attempt e u (n + j) \<noteq> Inr False"
  proof (cases "attempt e u n = Inr False")
    case True
    with body have "gen e u (n + 1) = Some z"
      by (simp add: Let_def attempt_def)
    from IH [OF this] obtain j where "attempt e u (n + 1 + j) \<noteq> Inr False"
      by blast
    then have "attempt e u (n + Suc j) \<noteq> Inr False"
      by simp
    then show ?thesis by blast
  next
    case False
    then have "attempt e u (n + 0) \<noteq> Inr False"
      by simp
    then show ?thesis by blast
  qed
qed

lemma genMinioID_all_taken:
  assumes "\<And>j. attempt env user (i + j) = Inr False"
  shows "genMinioID env user i = None"
proof (rule ccontr)
  assume "genMinioID env user i \<noteq> None"
  then obtain y where "genMinioID env user i = Some y" by blast
  from genMinioID_returns [OF this] assms show False by blast
qed

text \<open>
  C9, as stated, fails: the loop has no attempt cap and no error of its own.  Where every
  generated id is taken, the upload of \<open>alice\<close> does not end: the handler has no result.
\<close>

theorem upload_id_loop_counterexample:
  "attempt demo_env_full ''alice'' 0 = Inr False
   \<and> uploadDataHandler demo_env_full demo_upload = None"
proof -
  have taken: "attempt demo_env_full ''alice'' j = Inr False" for j
    by (simp add: attempt_def demo_env_full_def)
  have loop: "genMinioID demo_env_full ''alice'' 0 = None"
    by (rule genMinioID_all_taken) (simp add: taken)
  have tables: "Tables demo_env_full (Conn 3) = Inr [''t'', ''big'', ''empty'']"
    and bucket: "MinioUserBucket demo_env_full ''alice'' = Inr ''bkt-alice''"
    and valid: "ValidateDB demo_env_full ''new.db'' = None"
    and temp: "TempFile demo_env_full = Inr ''/tmp/dbhub-upload-1''"
    and written: "TempWrite demo_env_full ''/tmp/dbhub-upload-1'' [1, 2, 3, 4, 5] = None"
    and opened: "sqlite_Open demo_env_full ''/tmp/dbhub-upload-1'' = Inr (Conn 3)"
    by (simp_all add: demo_env_full_def demo_env_def demo_db_def)
  have store: "upload_store demo_env_full ''alice'' ''new.db'' True [1, 2, 3, 4, 5]
                 [''application/x-sqlite3''] (Conn 3) = None"
    by (simp add: upload_store_def loop tables bucket)
  have user: "session_UserName demo_upload = ''alice''"
    and sess: "validSession demo_upload"
    and form: "ParseForm demo_upload = None"
    and pub: "ParseBool (PostFormValue demo_upload ''public'') = Inr True"
    and upl: "FormFile demo_upload
                 = Inr \<lparr>Filename = ''new.db'', ContentType = [''application/x-sqlite3''],
                        Content = Inr [1, 2, 3, 4, 5]\<rparr>"
    by (simp_all add: demo_upload_def demo_request_def session_UserName_def
          validSession_def ParseBool_def)
  have "uploadDataHandler demo_env_full demo_upload = None"
    by (simp add: uploadDataHandler_def user sess form pub upl valid temp written opened
          store)
  with taken show ?thesis by simp
qed

text \<open>
  C9, amended.  The object-id step of the upload is a retry loop without a bound.  If
  the first \<open>k\<close> attempts find their id taken and the next one finds its id
  available, the loop returns that id; if the next one fails with an error, the loop
  returns the error (the upload then ends with status 500, "Database query failure");
  and if every attempt finds its id taken, the loop never returns.
\<close>

theorem genMinioID_retries_without_bound:
  "((\<forall>j<k. attempt env user (i + j) = Inr False) \<and> attempt env user (i + k) = Inr True
      \<longrightarrow> genMinioID env user i = Some (Inr (RandomString env (i + k) @ ''.db'')))
   \<and> ((\<forall>j<k. attempt env user (i + j) = Inr False) \<and> attempt env user (i + k) = Inl err
      \<longrightarrow> genMinioID env user i = Some (Inl err))
   \<and> ((\<forall>j. attempt env user (i + j) = Inr False) \<longrightarrow> genMinioID env user i = None)"
proof (intro conjI impI)
  assume "(\<forall>j<k. attempt env user (i + j) = Inr False) \<and> attempt env user (i + k) = Inr True"
  then show "genMinioID env user i = Some (Inr (RandomString env (i + k) @ ''.db''))"
    using genMinioID_skip [of k env user i] genMinioID_free [of env user "i + k"] by simp
next
  assume "(\<forall>j<k. attempt env user (i + j) = Inr False) \<and> attempt env user (i + k) = Inl err"
  then show "genMinioID env user i = Some (Inl err)"
    using genMinioID_skip [of k env user i] genMinioID_error [of env user "i + k"] by simp
next
  assume "\<forall>j. attempt env user (i + j) = Inr False"
  then show "genMinioID env user i = None"
    using genMinioID_all_taken [of env user i] by simp
qed

theorem genMinioID_retries_without_bound_witness:
  "attempt demo_env ''alice'' 0 = Inr False
   \<and> attempt demo_env ''alice'' 1 = Inr True
   \<and> genMinioID demo_env ''alice'' 0 = Some (Inr ''11111111.db'')
   \<and> genMinioID demo_env_full ''alice'' 0 = None"
proof -
  have a0: "attempt demo_env ''alice'' 0 = Inr False"
    by code_simp
  have a1: "attempt demo_env ''alice'' 1 = Inr True"
    by code_simp
  have rs: "RandomString demo_env 1 @ ''.db'' = ''11111111.db''"
    by code_simp
  have first: "(\<forall>j<1. attempt demo_env ''alice'' (0 + j) = Inr False)
                 \<and> attempt demo_env ''alice'' (0 + 1) = Inr True"
    using a0 a1 by simp
  have full: "\<forall>j. attempt demo_env_full ''alice'' (0 + j) = Inr False"
    by (simp add: attempt_def demo_env_full_def)
  from genMinioID_retries_without_bound [of 1 demo_env "''alice''" 0 _ ] first
  have "genMinioID demo_env ''alice'' 0 = Some (Inr (RandomString demo_env (0 + 1) @ ''.db''))"
    by blast
  moreover from genMinioID_retries_without_bound [of _ demo_env_full "''alice''" 0 _ ] full
  have "genMinioID demo_env_full ''alice'' 0 = None"
    by blast
  ultimately show ?thesis using a0 a1 rs by simp
qed

end
